theory Spec2Isabelle
  imports Main "HOL-Library.AList"
begin

section \<open>Python values and exceptions\<close>

text \<open>
  The client in \<^verbatim>\<open>src/cobbler.py\<close> works on what \<^verbatim>\<open>json.loads\<close> returns: dictionaries,
  lists, strings, numbers, booleans and \<^verbatim>\<open>None\<close>. A dictionary is kept as an association
  list in insertion order (\<^verbatim>\<open>.items()\<close> yields it in that order); a lookup takes the
  first entry of a key.
\<close>

datatype json =
    JNull
  | JBool bool
  | JNum int
  | JStr string
  | JArr "json list"
  | JObj "(string \<times> json) list"

text \<open>
  The exceptions (all subclasses of \<^verbatim>\<open>Exception\<close>) that the modelled code can meet.
  \<open>Fault\<close> stands for whatever a call on the \<^verbatim>\<open>ServerProxy\<close> raises: an XML-RPC
  fault, a protocol error, a refused connection, an expired token.
\<close>

datatype exn =
    JSONDecodeError
  | KeyError string
  | TypeError
  | AttributeError
  | Fault string

text \<open>The text handed to \<^verbatim>\<open>json.loads\<close>, by what the parser makes of it.\<close>

datatype payload = Malformed | Document json

definition json_loads :: "payload \<Rightarrow> exn + json" where
  "json_loads p = (case p of Malformed \<Rightarrow> Inl JSONDecodeError | Document j \<Rightarrow> Inr j)"

text \<open>\<^verbatim>\<open>sub in s\<close> on two strings: \<open>sub\<close> occurs in \<open>s\<close> as a contiguous slice.\<close>

fun str_contains :: "string \<Rightarrow> string \<Rightarrow> bool" where
  "str_contains sub [] = (sub = [])"
| "str_contains sub (c # cs) = (take (length sub) (c # cs) = sub \<or> str_contains sub cs)"

text \<open>
  \<^verbatim>\<open>k in v\<close> for a string literal \<open>k\<close>: key membership on a dictionary, element
  membership on a list, the substring test on a string, and a \<^verbatim>\<open>TypeError\<close> on
  a number, a boolean or \<^verbatim>\<open>None\<close> (not iterable).
\<close>

fun py_contains :: "string \<Rightarrow> json \<Rightarrow> exn + bool" where
  "py_contains k (JObj kvs) = Inr (map_of kvs k \<noteq> None)"
| "py_contains k (JArr xs) = Inr (List.member xs (JStr k))"
| "py_contains k (JStr s) = Inr (str_contains k s)"
| "py_contains k JNull = Inl TypeError"
| "py_contains k (JBool b) = Inl TypeError"
| "py_contains k (JNum n) = Inl TypeError"

text \<open>
  \<^verbatim>\<open>v[k]\<close> for a string literal \<open>k\<close>: the value of the key on a dictionary
  (\<^verbatim>\<open>KeyError\<close> when it is missing), a \<^verbatim>\<open>TypeError\<close> on everything else
  (list and string indices must be integers; the rest is not subscriptable).
\<close>

fun py_getitem :: "json \<Rightarrow> string \<Rightarrow> exn + json" where
  "py_getitem (JObj kvs) k = (case map_of kvs k of None \<Rightarrow> Inl (KeyError k) | Some v \<Rightarrow> Inr v)"
| "py_getitem (JArr xs) k = Inl TypeError"
| "py_getitem (JStr s) k = Inl TypeError"
| "py_getitem JNull k = Inl TypeError"
| "py_getitem (JBool b) k = Inl TypeError"
| "py_getitem (JNum n) k = Inl TypeError"

text \<open>
  \<^verbatim>\<open>t[k]\<close> where \<open>t\<close> is one of the pairs that \<^verbatim>\<open>dict.items()\<close> yields and \<open>k\<close> a
  string: tuple indices must be integers or slices, so this is always a
  \<^verbatim>\<open>TypeError\<close>.
\<close>

definition tuple_getitem :: "string \<times> json \<Rightarrow> string \<Rightarrow> exn + json" where
  "tuple_getitem t k = Inl TypeError"

text \<open>\<^verbatim>\<open>v.items()\<close>: only a dictionary has the attribute.\<close>

fun py_items :: "json \<Rightarrow> exn + (string \<times> json) list" where
  "py_items (JObj kvs) = Inr kvs"
| "py_items (JArr xs) = Inl AttributeError"
| "py_items (JStr s) = Inl AttributeError"
| "py_items JNull = Inl AttributeError"
| "py_items (JBool b) = Inl AttributeError"
| "py_items (JNum n) = Inl AttributeError"

text \<open>\<^verbatim>\<open>lit + v\<close> for a string literal: concatenation when \<open>v\<close> is a string, else a \<^verbatim>\<open>TypeError\<close>.\<close>

fun py_str_add :: "string \<Rightarrow> json \<Rightarrow> exn + string" where
  "py_str_add lit (JStr s) = Inr (lit @ s)"
| "py_str_add lit (JArr xs) = Inl TypeError"
| "py_str_add lit (JObj kvs) = Inl TypeError"
| "py_str_add lit JNull = Inl TypeError"
| "py_str_add lit (JBool b) = Inl TypeError"
| "py_str_add lit (JNum n) = Inl TypeError"

section \<open>The remote provisioning service\<close>

text \<open>
  The three collections of the service. A system is keyed by its name and carries the
  fields that were committed for it; profiles and distros are read only.
\<close>

record profile =
  prof_name :: string
  prof_distro :: string

record distro =
  dist_name :: string
  dist_arch :: string

record system =
  sys_name :: string
  sys_attrs :: "(string \<times> json) list"

text \<open>
  The calls made on the \<^verbatim>\<open>ServerProxy\<close>, with their arguments; the last string of a
  mutating call is the session token.
\<close>

datatype rpc =
    GetSystems
  | GetProfiles
  | GetDistros
  | NewSystem string
  | GetSystemHandle string string
  | ModifySystem nat string json string
  | SaveSystem nat string
  | RemoveSystem string string

text \<open>
  Everything outside the client: the catalog of the service, the handles it has handed
  out with the fields staged on each, the failures its coming calls will meet
  (\<open>faults\<close>: one entry is consumed by each call, \<open>Some e\<close> makes that call raise \<open>e\<close>,
  and a call beyond the end of the list goes through), the calls made so far in order,
  and the lines printed on standard output.
\<close>

record world =
  systems :: "system list"
  profiles :: "profile list"
  distros :: "distro list"
  handles :: "(nat \<times> (string \<times> json) list) list"
  next_handle :: nat
  faults :: "exn option list"
  calls :: "rpc list"
  stdout :: "string list"

type_synonym 'a io = "world \<Rightarrow> (exn + 'a) \<times> world"

definition return_io :: "'a \<Rightarrow> 'a io" where
  "return_io x w = (Inr x, w)"

definition pure_io :: "exn + 'a \<Rightarrow> 'a io" where
  "pure_io r w = (r, w)"

text \<open>Sequencing: an exception of the first statement skips the rest.\<close>

definition bind_io :: "'a io \<Rightarrow> ('a \<Rightarrow> 'b io) \<Rightarrow> 'b io" where
  "bind_io m f w = (case m w of (Inl e, w') \<Rightarrow> (Inl e, w') | (Inr x, w') \<Rightarrow> f x w')"

definition print :: "string \<Rightarrow> unit io" where
  "print line w = (Inr (), w\<lparr>stdout := stdout w @ [line]\<rparr>)"

text \<open>
  One call on the proxy: it is recorded, the next entry of \<open>faults\<close> is consumed, and
  either that entry's exception is raised or the service carries the call out.
\<close>

definition remote_call :: "rpc \<Rightarrow> 'a io \<Rightarrow> 'a io" where
  "remote_call c effect w =
     (case faults w of
        [] \<Rightarrow> effect (w\<lparr>calls := calls w @ [c]\<rparr>)
      | None # fs \<Rightarrow> effect (w\<lparr>faults := fs, calls := calls w @ [c]\<rparr>)
      | Some e # fs \<Rightarrow> (Inl e, w\<lparr>faults := fs, calls := calls w @ [c]\<rparr>))"

text \<open>
  Modelled from the spec: the provisioning service itself is not part of the repository
  (the client reaches it through \<^verbatim>\<open>xmlrpc.client.ServerProxy\<close>). Sections 3 and 6 of
  the specification give its interface: the three listing calls return the full
  collections; \<^verbatim>\<open>new_system\<close> opens a new, uncommitted handle; \<^verbatim>\<open>get_system_handle\<close> opens
  a handle on an existing system; \<^verbatim>\<open>modify_system\<close> stages one field on a handle;
  \<^verbatim>\<open>save_system\<close> commits the staged fields, which only then become visible to readers;
  \<^verbatim>\<open>remove_system\<close> removes a system by name.
\<close>

definition cobbler_get_systems :: "system list io" where
  "cobbler_get_systems = remote_call GetSystems (\<lambda>w. (Inr (systems w), w))"

definition cobbler_get_profiles :: "profile list io" where
  "cobbler_get_profiles = remote_call GetProfiles (\<lambda>w. (Inr (profiles w), w))"

definition cobbler_get_distros :: "distro list io" where
  "cobbler_get_distros = remote_call GetDistros (\<lambda>w. (Inr (distros w), w))"

definition open_handle :: "(string \<times> json) list \<Rightarrow> nat io" where
  "open_handle flds w =
     (Inr (next_handle w),
      w\<lparr>handles := (next_handle w, flds) # handles w, next_handle := Suc (next_handle w)\<rparr>)"

definition cobbler_new_system :: "string \<Rightarrow> nat io" where
  "cobbler_new_system tok = remote_call (NewSystem tok) (open_handle [])"

definition cobbler_get_system_handle :: "string \<Rightarrow> string \<Rightarrow> nat io" where
  "cobbler_get_system_handle name tok =
     remote_call (GetSystemHandle name tok)
       (\<lambda>w. case find (\<lambda>s. sys_name s = name) (systems w) of
               None \<Rightarrow> (Inl (Fault ''unknown system''), w)
             | Some s \<Rightarrow> open_handle (sys_attrs s) w)"

definition cobbler_modify_system :: "nat \<Rightarrow> string \<Rightarrow> json \<Rightarrow> string \<Rightarrow> unit io" where
  "cobbler_modify_system h field v tok =
     remote_call (ModifySystem h field v tok)
       (\<lambda>w. case map_of (handles w) h of
               None \<Rightarrow> (Inl (Fault ''invalid handle''), w)
             | Some flds \<Rightarrow>
                 (Inr (), w\<lparr>handles := AList.update h (AList.update field v flds) (handles w)\<rparr>))"

fun commit :: "system \<Rightarrow> system list \<Rightarrow> system list" where
  "commit s [] = [s]"
| "commit s (t # ts) = (if sys_name t = sys_name s then s # ts else t # commit s ts)"

definition cobbler_save_system :: "nat \<Rightarrow> string \<Rightarrow> unit io" where
  "cobbler_save_system h tok =
     remote_call (SaveSystem h tok)
       (\<lambda>w. case map_of (handles w) h of
               None \<Rightarrow> (Inl (Fault ''invalid handle''), w)
             | Some flds \<Rightarrow>
                 (case map_of flds ''name'' of
                    Some (JStr n) \<Rightarrow>
                      (Inr (), w\<lparr>systems := commit \<lparr>sys_name = n, sys_attrs = flds\<rparr> (systems w)\<rparr>)
                  | _ \<Rightarrow> (Inl (Fault ''invalid name''), w)))"

definition cobbler_remove_system :: "string \<Rightarrow> string \<Rightarrow> unit io" where
  "cobbler_remove_system name tok =
     remote_call (RemoveSystem name tok)
       (\<lambda>w. (Inr (), w\<lparr>systems := filter (\<lambda>s. sys_name s \<noteq> name) (systems w)\<rparr>))"

section \<open>The client: \<^verbatim>\<open>CobblerAction\<close>\<close>

record CobblerAction =
  server_url :: string
  user :: string
  password :: string
  token :: string

subsection \<open>Catalog reads\<close>

definition system_names :: "CobblerAction \<Rightarrow> string list io" where
  "system_names self = bind_io cobbler_get_systems (\<lambda>systems. return_io (map sys_name systems))"

text \<open>
  The three lookups are the same loop: return the first record of the fetched collection
  whose name is the one asked for; falling off the end of the loop returns \<^verbatim>\<open>None\<close>.
\<close>

fun first_named :: "('r \<Rightarrow> string) \<Rightarrow> string \<Rightarrow> 'r list \<Rightarrow> 'r option" where
  "first_named nm name [] = None"
| "first_named nm name (r # rs) = (if nm r = name then Some r else first_named nm name rs)"

definition get_system :: "CobblerAction \<Rightarrow> string \<Rightarrow> system option io" where
  "get_system self hostname =
     bind_io cobbler_get_systems (\<lambda>systems. return_io (first_named sys_name hostname systems))"

definition get_distro :: "CobblerAction \<Rightarrow> string \<Rightarrow> distro option io" where
  "get_distro self name =
     bind_io cobbler_get_distros (\<lambda>distros. return_io (first_named dist_name name distros))"

definition get_profile :: "CobblerAction \<Rightarrow> string \<Rightarrow> profile option io" where
  "get_profile self name =
     bind_io cobbler_get_profiles (\<lambda>profiles. return_io (first_named prof_name name profiles))"

text \<open>
  The loop of \<^verbatim>\<open>get_default_profile_name\<close> over the fetched profiles. Each round calls
  \<^verbatim>\<open>get_distro\<close> (one more listing call) and subscripts its result with \<^verbatim>\<open>'arch'\<close>: when
  the lookup returned \<^verbatim>\<open>None\<close> that is a \<^verbatim>\<open>TypeError\<close>. The comparison is Python's
  \<^verbatim>\<open>==\<close> of the distro's string with the argument, which \<^verbatim>\<open>add_system\<close> takes from the
  payload unchecked.
\<close>

fun default_profile_loop :: "CobblerAction \<Rightarrow> json \<Rightarrow> profile list \<Rightarrow> string io" where
  "default_profile_loop self arch [] w = (Inr ''no-profile'', w)"
| "default_profile_loop self arch (profile # rest) w =
     (case get_distro self (prof_distro profile) w of
        (Inl e, w') \<Rightarrow> (Inl e, w')
      | (Inr None, w') \<Rightarrow> (Inl TypeError, w')
      | (Inr (Some d), w') \<Rightarrow>
          if JStr (dist_arch d) = arch then (Inr (prof_name profile), w')
          else default_profile_loop self arch rest w')"

definition get_default_profile_name :: "CobblerAction \<Rightarrow> json \<Rightarrow> string io" where
  "get_default_profile_name self arch =
     bind_io cobbler_get_profiles (default_profile_loop self arch)"

subsection \<open>Purge\<close>

fun purge_loop :: "CobblerAction \<Rightarrow> string list \<Rightarrow> unit io" where
  "purge_loop self [] w = (Inr (), w)"
| "purge_loop self (name # rest) w =
     (case cobbler_remove_system name (token self) w of
        (Inl e, w') \<Rightarrow> (Inl e, w')
      | (Inr u, w') \<Rightarrow> purge_loop self rest w')"

definition purge_systems :: "CobblerAction \<Rightarrow> unit io" where
  "purge_systems self = bind_io (system_names self) (purge_loop self)"

subsection \<open>Boot arguments\<close>

text \<open>
  \<^verbatim>\<open>set_system_args\<close> is modelled by its body. (Its annotation \<^verbatim>\<open>List[Tuple[str, str]]\<close>
  uses two names the file never imports; an interpreter that evaluates annotations when
  the method is defined stops there, one that defers them loads the class.) The loop
  appends one segment to \<open>arg_str\<close> per pair; \<^verbatim>\<open>print(a, b)\<close> separates its arguments
  by one space.
\<close>

fun arg_str_loop :: "string \<Rightarrow> (string \<times> string) list \<Rightarrow> string" where
  "arg_str_loop arg_str [] = arg_str"
| "arg_str_loop arg_str ((arg_name, arg_val) # rest) =
     arg_str_loop (arg_str @ '' '' @ arg_name @ ''='' @ arg_val) rest"

definition get_system_handle :: "CobblerAction \<Rightarrow> string \<Rightarrow> nat io" where
  "get_system_handle self hostname = cobbler_get_system_handle hostname (token self)"

definition set_system_args :: "CobblerAction \<Rightarrow> string \<Rightarrow> (string \<times> string) list \<Rightarrow> unit io" where
  "set_system_args self hostname args =
     (let arg_str = arg_str_loop '''' args in
      bind_io (print ''about to get sys_id'') (\<lambda>u.
      bind_io (get_system_handle self hostname) (\<lambda>sys_id.
      bind_io (print ''about to modify system'') (\<lambda>u.
      bind_io (print (''Sets system args to: '' @ arg_str)) (\<lambda>u.
      bind_io (cobbler_modify_system sys_id ''kernel_options'' (JStr arg_str) (token self)) (\<lambda>u.
      bind_io (print ''about to save system'') (\<lambda>u.
      cobbler_save_system sys_id (token self))))))))"

subsection \<open>Creating a system\<close>

text \<open>
  The test \<^verbatim>\<open>'arch' in system_def and 'host_ports' in system_def\<close>; \<^verbatim>\<open>and\<close> evaluates its
  second operand only when the first is true.
\<close>

definition has_required :: "json \<Rightarrow> exn + bool" where
  "has_required system_def =
     (case py_contains ''arch'' system_def of
        Inl e \<Rightarrow> Inl e
      | Inr False \<Rightarrow> Inr False
      | Inr True \<Rightarrow> py_contains ''host_ports'' system_def)"

text \<open>The line printed when the test fails; it subscripts the payload with \<^verbatim>\<open>'server_name'\<close>.\<close>

definition warning_text :: "json \<Rightarrow> exn + string" where
  "warning_text system_def =
     (case py_getitem system_def ''server_name'' of
        Inl e \<Rightarrow> Inl e
      | Inr v \<Rightarrow>
          (case py_str_add ''WARNING: Host schema for '' v of
             Inl e \<Rightarrow> Inl e
           | Inr s \<Rightarrow> Inr (s @ '' is out of date! Reimport this host.'')))"

text \<open>
  The loop over \<^verbatim>\<open>system_def['host_ports'].items()\<close>. Its body is the assignment
  \<^verbatim>\<open>ifaces[iface['name']] = {'mac_address': iface['mac']}\<close>, where \<open>iface\<close> is a
  (key, value) pair; Python evaluates the right-hand side first. Both subscripts are
  string subscripts of a tuple, so the first round raises; the branches after them are
  written as the source has them and are never reached (the dictionary of the model is
  keyed by strings, so another key type has no entry to go to).
\<close>

fun ifaces_loop :: "(string \<times> json) list \<Rightarrow> (string \<times> json) list \<Rightarrow> exn + (string \<times> json) list" where
  "ifaces_loop ifaces [] = Inr ifaces"
| "ifaces_loop ifaces (iface # rest) =
     (case tuple_getitem iface ''mac'' of
        Inl e \<Rightarrow> Inl e
      | Inr mac \<Rightarrow>
          (case tuple_getitem iface ''name'' of
             Inl e \<Rightarrow> Inl e
           | Inr (JStr k) \<Rightarrow> ifaces_loop (AList.update k (JObj [(''mac_address'', mac)]) ifaces) rest
           | Inr other \<Rightarrow> Inl TypeError))"

text \<open>The body of the \<^verbatim>\<open>try\<close> block: \<open>Inl\<close> is an exception raised in it, \<open>Inr\<close> what it returns.\<close>

definition add_system_try :: "CobblerAction \<Rightarrow> payload \<Rightarrow> exn option io" where
  "add_system_try self raw =
     bind_io (pure_io (json_loads raw)) (\<lambda>system_def.
     bind_io (cobbler_new_system (token self)) (\<lambda>sys_id.
     bind_io (pure_io (has_required system_def)) (\<lambda>ok.
     if \<not> ok then
       bind_io (pure_io (warning_text system_def)) (\<lambda>msg.
       bind_io (print msg) (\<lambda>u.
       return_io None))
     else
       bind_io (pure_io (py_getitem system_def ''arch'')) (\<lambda>arch.
       bind_io (pure_io (py_getitem system_def ''server_name'')) (\<lambda>name.
       bind_io (cobbler_modify_system sys_id ''name'' name (token self)) (\<lambda>u.
       bind_io (pure_io (py_getitem system_def ''server_name'')) (\<lambda>hostname.
       bind_io (cobbler_modify_system sys_id ''hostname'' hostname (token self)) (\<lambda>u.
       bind_io (get_default_profile_name self arch) (\<lambda>prof.
       bind_io (cobbler_modify_system sys_id ''profile'' (JStr prof) (token self)) (\<lambda>u.
       bind_io (pure_io (py_getitem system_def ''host_ports'')) (\<lambda>host_ports.
       bind_io (pure_io (py_items host_ports)) (\<lambda>items.
       bind_io (pure_io (ifaces_loop [] items)) (\<lambda>ifaces.
       bind_io (cobbler_modify_system sys_id ''interfaces'' (JObj ifaces) (token self)) (\<lambda>u.
       bind_io (pure_io (py_getitem system_def ''ipmi_fqdn'')) (\<lambda>fqdn.
       bind_io (cobbler_modify_system sys_id ''power_address'' fqdn (token self)) (\<lambda>u.
       bind_io (pure_io (py_getitem system_def ''ipmi_user'')) (\<lambda>ipmi_user.
       bind_io (cobbler_modify_system sys_id ''power_user'' ipmi_user (token self)) (\<lambda>u.
       bind_io (pure_io (py_getitem system_def ''ipmi_pass'')) (\<lambda>ipmi_pass.
       bind_io (cobbler_modify_system sys_id ''power_pass'' ipmi_pass (token self)) (\<lambda>u.
       bind_io (cobbler_modify_system sys_id ''power_mode'' (JStr ''ipmitool'') (token self)) (\<lambda>u.
       bind_io (cobbler_modify_system sys_id ''netboot_enabled'' (JBool True) (token self)) (\<lambda>u.
       bind_io (cobbler_save_system sys_id (token self)) (\<lambda>u.
       return_io None)))))))))))))))))))))))"

text \<open>
  \<^verbatim>\<open>add_system\<close>: the \<^verbatim>\<open>try\<close> block under \<^verbatim>\<open>except Exception as e: return e\<close>. The value
  returned is \<^verbatim>\<open>None\<close> or the exception object; \<open>Inl\<close> would be an exception that
  leaves the method.
\<close>

definition add_system :: "CobblerAction \<Rightarrow> payload \<Rightarrow> exn option io" where
  "add_system self raw w =
     (case add_system_try self raw w of
        (Inl e, w') \<Rightarrow> (Inr (Some e), w')
      | (Inr r, w') \<Rightarrow> (Inr r, w'))"

section \<open>What the specification says, in its own words\<close>

text \<open>
  \<open>resolve_default_profile(arch)\<close>: the name of the first profile whose distro's
  \<open>arch\<close> equals the requested architecture, and the sentinel when none matches. The
  distro of a profile is the record its \<open>distro\<close> field names.
\<close>

definition distro_of :: "distro list \<Rightarrow> profile \<Rightarrow> distro option" where
  "distro_of ds p = find (\<lambda>d. dist_name d = prof_distro p) ds"

definition resolve_default_profile_spec :: "profile list \<Rightarrow> distro list \<Rightarrow> string \<Rightarrow> string" where
  "resolve_default_profile_spec ps ds a =
     (case find (\<lambda>p. map_option dist_arch (distro_of ds p) = Some a) ps of
        None \<Rightarrow> ''no-profile''
      | Some p \<Rightarrow> prof_name p)"

text \<open>
  The boot-argument string: one \<open>" name=value"\<close> segment per pair, in the order given,
  nothing removed and nothing escaped.
\<close>

definition boot_args_spec :: "(string \<times> string) list \<Rightarrow> string" where
  "boot_args_spec args = concat (map (\<lambda>(n, v). '' '' @ n @ ''='' @ v) args)"

section \<open>Concrete inputs\<close>

abbreviation demo_client :: CobblerAction where
  "demo_client \<equiv>
     \<lparr>server_url = ''http://cobbler/api'', user = ''laas'', password = ''secret'', token = ''tok''\<rparr>"

text \<open>An empty system catalog with the profile \<open>p1\<close> on an x86_64 distro.\<close>

abbreviation demo_world :: world where
  "demo_world \<equiv>
     \<lparr>systems = [],
      profiles = [\<lparr>prof_name = ''p1'', prof_distro = ''x86''\<rparr>],
      distros = [\<lparr>dist_name = ''x86'', dist_arch = ''x86_64''\<rparr>],
      handles = [], next_handle = 0, faults = [], calls = [], stdout = []\<rparr>"

text \<open>Two systems, and the two profiles and distros of the specification's example.\<close>

abbreviation demo_catalog :: world where
  "demo_catalog \<equiv>
     \<lparr>systems = [\<lparr>sys_name = ''h1'', sys_attrs = [(''name'', JStr ''h1'')]\<rparr>,
                 \<lparr>sys_name = ''h2'', sys_attrs = [(''name'', JStr ''h2'')]\<rparr>],
      profiles = [\<lparr>prof_name = ''p1'', prof_distro = ''x86''\<rparr>,
                  \<lparr>prof_name = ''p2'', prof_distro = ''arm''\<rparr>],
      distros = [\<lparr>dist_name = ''x86'', dist_arch = ''x86_64''\<rparr>,
                 \<lparr>dist_name = ''arm'', dist_arch = ''aarch64''\<rparr>],
      handles = [], next_handle = 0, faults = [], calls = [], stdout = []\<rparr>"

text \<open>The system definition of the specification's example, with the given \<open>host_ports\<close>.\<close>

abbreviation demo_def :: "json \<Rightarrow> json" where
  "demo_def ports \<equiv>
     JObj [(''server_name'', JStr ''h1''), (''arch'', JStr ''x86_64''),
           (''host_ports'', ports), (''ipmi_fqdn'', JStr ''bmc1''),
           (''ipmi_user'', JStr ''u''), (''ipmi_pass'', JStr ''p'')]"

text \<open>A legacy definition: no \<open>host_ports\<close>.\<close>

abbreviation legacy_fields :: "(string \<times> json) list" where
  "legacy_fields \<equiv> [(''server_name'', JStr ''h1''), (''arch'', JStr ''x86_64'')]"

section \<open>Calls that go through\<close>

lemmas io_defs = bind_io_def return_io_def pure_io_def print_def remote_call_def open_handle_def
  cobbler_get_systems_def cobbler_get_profiles_def cobbler_get_distros_def cobbler_new_system_def
  cobbler_get_system_handle_def cobbler_modify_system_def cobbler_save_system_def
  cobbler_remove_system_def

lemmas client_defs = system_names_def get_system_def get_distro_def get_profile_def
  get_default_profile_name_def purge_systems_def get_system_handle_def set_system_args_def
  json_loads_def has_required_def warning_text_def tuple_getitem_def add_system_try_def
  add_system_def

lemma remote_call_ok:
  "faults w = [] \<Longrightarrow> remote_call c eff w = eff (w\<lparr>calls := calls w @ [c]\<rparr>)"
  by (simp add: remote_call_def)

lemma get_systems_ok:
  "faults w = [] \<Longrightarrow>
   cobbler_get_systems w = (Inr (systems w), w\<lparr>calls := calls w @ [GetSystems]\<rparr>)"
  by (simp add: cobbler_get_systems_def remote_call_ok)

lemma get_profiles_ok:
  "faults w = [] \<Longrightarrow>
   cobbler_get_profiles w = (Inr (profiles w), w\<lparr>calls := calls w @ [GetProfiles]\<rparr>)"
  by (simp add: cobbler_get_profiles_def remote_call_ok)

lemma get_distros_ok:
  "faults w = [] \<Longrightarrow>
   cobbler_get_distros w = (Inr (distros w), w\<lparr>calls := calls w @ [GetDistros]\<rparr>)"
  by (simp add: cobbler_get_distros_def remote_call_ok)

lemma remove_system_ok:
  "faults w = [] \<Longrightarrow>
   cobbler_remove_system name tok w =
     (Inr (), w\<lparr>calls := calls w @ [RemoveSystem name tok],
               systems := filter (\<lambda>s. sys_name s \<noteq> name) (systems w)\<rparr>)"
  by (simp add: cobbler_remove_system_def remote_call_ok)

lemma new_system_ok:
  "faults w = [] \<Longrightarrow>
   cobbler_new_system tok w =
     (Inr (next_handle w),
      w\<lparr>calls := calls w @ [NewSystem tok],
        handles := (next_handle w, []) # handles w, next_handle := Suc (next_handle w)\<rparr>)"
  by (simp add: cobbler_new_system_def remote_call_ok open_handle_def)

lemma get_system_handle_ok:
  "faults w = [] \<Longrightarrow> find (\<lambda>s. sys_name s = hostname) (systems w) = Some s \<Longrightarrow>
   cobbler_get_system_handle hostname tok w =
     (Inr (next_handle w),
      w\<lparr>calls := calls w @ [GetSystemHandle hostname tok],
        handles := (next_handle w, sys_attrs s) # handles w, next_handle := Suc (next_handle w)\<rparr>)"
  by (simp add: cobbler_get_system_handle_def remote_call_ok open_handle_def)

text \<open>Whatever happens to \<^verbatim>\<open>new_system\<close>, it is recorded and leaves catalog and output alone.\<close>

lemma new_system_frame:
  "calls (snd (cobbler_new_system tok w)) = calls w @ [NewSystem tok]"
  "systems (snd (cobbler_new_system tok w)) = systems w"
  "stdout (snd (cobbler_new_system tok w)) = stdout w"
  by (simp_all add: cobbler_new_system_def remote_call_def open_handle_def
      split: list.splits option.splits)

section \<open>Catalog reads\<close>

lemma first_named_find: "first_named nm name rs = find (\<lambda>r. nm r = name) rs"
  by (induction rs) simp_all

lemma first_named_absent: "name \<notin> nm ` set rs \<Longrightarrow> first_named nm name rs = None"
  by (induction rs) auto

lemma system_names_ok:
  "faults w = [] \<Longrightarrow>
   system_names self w = (Inr (map sys_name (systems w)), w\<lparr>calls := calls w @ [GetSystems]\<rparr>)"
  by (simp add: system_names_def bind_io_def return_io_def get_systems_ok)

lemma get_distro_ok:
  "faults w = [] \<Longrightarrow>
   get_distro self name w =
     (Inr (find (\<lambda>d. dist_name d = name) (distros w)), w\<lparr>calls := calls w @ [GetDistros]\<rparr>)"
  by (simp add: get_distro_def bind_io_def return_io_def get_distros_ok first_named_find)

text \<open>
  Claim C8. On a fixed catalog whose calls go through, \<open>system_names\<close> returns the names
  of the systems in catalog order, a second call right after the first returns the same
  sequence, and the two reads leave the catalog as it was.
\<close>

theorem system_names_repeatable:
  assumes "faults w = []"
  shows "fst (system_names self w) = Inr (map sys_name (systems w))
       \<and> fst (system_names self (snd (system_names self w))) = fst (system_names self w)
       \<and> systems (snd (system_names self (snd (system_names self w)))) = systems w"
  using assms by (simp add: system_names_ok)

text \<open>The theorem on the catalog of two systems.\<close>

theorem system_names_repeatable_witness:
  "faults demo_catalog = []
 \<and> fst (system_names demo_client demo_catalog) = Inr [''h1'', ''h2'']
 \<and> fst (system_names demo_client (snd (system_names demo_client demo_catalog))) = Inr [''h1'', ''h2'']"
  using system_names_repeatable [of demo_catalog demo_client]
  by simp

text \<open>
  Claim C7. When no record of the collection has the name asked for (and the listing
  call goes through), \<open>get_system\<close>, \<open>get_profile\<close> and \<open>get_distro\<close> each return
  \<^verbatim>\<open>None\<close>: a returned value, not a raised exception.
\<close>

theorem lookups_absent_return_None:
  assumes "faults w = []"
  shows "(name \<notin> sys_name ` set (systems w) \<longrightarrow> fst (get_system self name w) = Inr None)
       \<and> (name \<notin> prof_name ` set (profiles w) \<longrightarrow> fst (get_profile self name w) = Inr None)
       \<and> (name \<notin> dist_name ` set (distros w) \<longrightarrow> fst (get_distro self name w) = Inr None)"
  using assms
  by (simp add: get_system_def get_profile_def get_distro_def bind_io_def return_io_def
      get_systems_ok get_profiles_ok get_distros_ok first_named_absent)

text \<open>The theorem for a name that none of the three collections holds.\<close>

theorem lookups_absent_return_None_witness:
  "faults demo_catalog = []
 \<and> ''h9'' \<notin> sys_name ` set (systems demo_catalog)
 \<and> fst (get_system demo_client ''h9'' demo_catalog) = Inr None
 \<and> ''h9'' \<notin> prof_name ` set (profiles demo_catalog)
 \<and> fst (get_profile demo_client ''h9'' demo_catalog) = Inr None
 \<and> ''h9'' \<notin> dist_name ` set (distros demo_catalog)
 \<and> fst (get_distro demo_client ''h9'' demo_catalog) = Inr None"
  using lookups_absent_return_None [of demo_catalog "''h9''" demo_client]
  by simp

section \<open>Default profile\<close>

lemma default_profile_loop_ok:
  "faults w = [] \<Longrightarrow> \<forall>p\<in>set ps. distro_of (distros w) p \<noteq> None \<Longrightarrow>
   fst (default_profile_loop self (JStr a) ps w) =
     Inr (resolve_default_profile_spec ps (distros w) a)"
proof (induction ps arbitrary: w)
  case Nil
  then show ?case by (simp add: resolve_default_profile_spec_def)
next
  case (Cons p ps)
  let ?w1 = "w\<lparr>calls := calls w @ [GetDistros]\<rparr>"
  from Cons.prems obtain d where d: "distro_of (distros w) p = Some d" by auto
  have gd: "get_distro self (prof_distro p) w = (Inr (Some d), ?w1)"
    using get_distro_ok [OF Cons.prems(1), of self "prof_distro p"] d
    by (simp add: distro_of_def)
  have "fst (default_profile_loop self (JStr a) ps ?w1) =
          Inr (resolve_default_profile_spec ps (distros ?w1) a)"
    using Cons.prems by (intro Cons.IH) simp_all
  then show ?case using gd d
    by (simp add: resolve_default_profile_spec_def)
qed

lemma default_profile_loop_dangling:
  "faults w = [] \<Longrightarrow>
   \<forall>q\<in>set ps1. \<exists>d. distro_of (distros w) q = Some d \<and> JStr (dist_arch d) \<noteq> arch \<Longrightarrow>
   distro_of (distros w) p = None \<Longrightarrow>
   fst (default_profile_loop self arch (ps1 @ p # ps2) w) = Inl TypeError"
proof (induction ps1 arbitrary: w)
  case Nil
  have "get_distro self (prof_distro p) w = (Inr None, w\<lparr>calls := calls w @ [GetDistros]\<rparr>)"
    using get_distro_ok [OF Nil.prems(1), of self "prof_distro p"] Nil.prems(3)
    by (simp add: distro_of_def)
  then show ?case by simp
next
  case (Cons q qs)
  let ?w1 = "w\<lparr>calls := calls w @ [GetDistros]\<rparr>"
  from Cons.prems obtain d
    where d: "distro_of (distros w) q = Some d" "JStr (dist_arch d) \<noteq> arch"
    by auto
  have gd: "get_distro self (prof_distro q) w = (Inr (Some d), ?w1)"
    using get_distro_ok [OF Cons.prems(1), of self "prof_distro q"] d
    by (simp add: distro_of_def)
  have "fst (default_profile_loop self arch (qs @ p # ps2) ?w1) = Inl TypeError"
    using Cons.prems by (intro Cons.IH) simp_all
  then show ?case using gd d by simp
qed

text \<open>
  Claim C4. For every architecture string \<open>a\<close> and every catalog in which the distro of
  each profile resolves (and whose calls go through), \<open>get_default_profile_name\<close> returns
  what the specification describes: the name of the first profile, in catalog order,
  whose distro has architecture \<open>a\<close>, and the string \<open>no-profile\<close>, as a returned value,
  when there is none.
\<close>

theorem get_default_profile_name_first_match:
  assumes "faults w = []" and "\<forall>p\<in>set (profiles w). distro_of (distros w) p \<noteq> None"
  shows "fst (get_default_profile_name self (JStr a) w) =
           Inr (resolve_default_profile_spec (profiles w) (distros w) a)"
proof -
  let ?w1 = "w\<lparr>calls := calls w @ [GetProfiles]\<rparr>"
  have "fst (default_profile_loop self (JStr a) (profiles w) ?w1) =
          Inr (resolve_default_profile_spec (profiles w) (distros ?w1) a)"
    using assms by (intro default_profile_loop_ok) simp_all
  then show ?thesis
    by (simp add: get_default_profile_name_def bind_io_def get_profiles_ok [OF assms(1)])
qed

text \<open>The specification's example: \<open>aarch64\<close> gives \<open>p2\<close>, \<open>riscv64\<close> gives the sentinel.\<close>

theorem get_default_profile_name_first_match_witness:
  "faults demo_catalog = []
 \<and> distro_of (distros demo_catalog) \<lparr>prof_name = ''p1'', prof_distro = ''x86''\<rparr> =
      Some \<lparr>dist_name = ''x86'', dist_arch = ''x86_64''\<rparr>
 \<and> distro_of (distros demo_catalog) \<lparr>prof_name = ''p2'', prof_distro = ''arm''\<rparr> =
      Some \<lparr>dist_name = ''arm'', dist_arch = ''aarch64''\<rparr>
 \<and> fst (get_default_profile_name demo_client (JStr ''aarch64'') demo_catalog) = Inr ''p2''
 \<and> fst (get_default_profile_name demo_client (JStr ''riscv64'') demo_catalog) = Inr ''no-profile''"
  using get_default_profile_name_first_match [of demo_catalog demo_client "''aarch64''"]
    get_default_profile_name_first_match [of demo_catalog demo_client "''riscv64''"]
  by (simp add: resolve_default_profile_spec_def distro_of_def)

text \<open>
  Claim C9. When the profiles scanned first all resolve to distros of another
  architecture and the next profile names a distro that the catalog does not hold, the
  lookup of that distro returns \<^verbatim>\<open>None\<close> and the subscript \<^verbatim>\<open>['arch']\<close> on it raises:
  \<open>get_default_profile_name\<close> ends in a \<^verbatim>\<open>TypeError\<close>, not in the sentinel.
\<close>

theorem get_default_profile_name_dangling_distro:
  assumes "faults w = []" and "profiles w = ps1 @ p # ps2"
    and "\<forall>q\<in>set ps1. \<exists>d. distro_of (distros w) q = Some d \<and> JStr (dist_arch d) \<noteq> arch"
    and "distro_of (distros w) p = None"
  shows "fst (get_default_profile_name self arch w) = Inl TypeError"
proof -
  let ?w1 = "w\<lparr>calls := calls w @ [GetProfiles]\<rparr>"
  have "fst (default_profile_loop self arch (ps1 @ p # ps2) ?w1) = Inl TypeError"
    using assms by (intro default_profile_loop_dangling) simp_all
  then show ?thesis
    by (simp add: get_default_profile_name_def bind_io_def get_profiles_ok [OF assms(1)] assms(2))
qed

text \<open>The example catalog without its \<open>arm\<close> distro: profile \<open>p2\<close> dangles.\<close>

theorem get_default_profile_name_dangling_distro_witness:
  "faults (demo_catalog\<lparr>distros := [\<lparr>dist_name = ''x86'', dist_arch = ''x86_64''\<rparr>]\<rparr>) = []
 \<and> distro_of [\<lparr>dist_name = ''x86'', dist_arch = ''x86_64''\<rparr>]
      \<lparr>prof_name = ''p2'', prof_distro = ''arm''\<rparr> = None
 \<and> fst (get_default_profile_name demo_client (JStr ''riscv64'')
      (demo_catalog\<lparr>distros := [\<lparr>dist_name = ''x86'', dist_arch = ''x86_64''\<rparr>]\<rparr>)) = Inl TypeError"
  using get_default_profile_name_dangling_distro
    [of "demo_catalog\<lparr>distros := [\<lparr>dist_name = ''x86'', dist_arch = ''x86_64''\<rparr>]\<rparr>"
      "[\<lparr>prof_name = ''p1'', prof_distro = ''x86''\<rparr>]" "\<lparr>prof_name = ''p2'', prof_distro = ''arm''\<rparr>" "[]"
      "JStr ''riscv64''" demo_client]
  by (simp add: distro_of_def)

section \<open>Purge\<close>

lemma purge_loop_calls:
  "faults w = [] \<Longrightarrow>
   calls (snd (purge_loop self names w)) =
     calls w @ map (\<lambda>n. RemoveSystem n (token self)) names"
proof (induction names arbitrary: w)
  case Nil
  then show ?case by simp
next
  case (Cons n ns)
  let ?w1 = "w\<lparr>calls := calls w @ [RemoveSystem n (token self)],
               systems := filter (\<lambda>s. sys_name s \<noteq> n) (systems w)\<rparr>"
  have "faults ?w1 = []" using Cons.prems by simp
  from Cons.IH [OF this] show ?case
    by (simp add: remove_system_ok [OF Cons.prems])
qed

text \<open>
  Claim C6. When the calls go through, \<open>purge_systems\<close> makes one listing call, first,
  and then one \<^verbatim>\<open>remove_system\<close> call per name of that list, in order, and no other call.
  The removals depend on the fetched names only: whatever catalog \<open>w2\<close> the service
  holds once the list has been fetched (one with a system added since, say), the loop
  over the fetched names makes the removals of exactly those names.
\<close>

theorem purge_systems_calls:
  assumes "faults w = []"
  shows "calls (snd (purge_systems self w)) =
           calls w @ GetSystems # map (\<lambda>n. RemoveSystem n (token self)) (map sys_name (systems w))
       \<and> (\<forall>w2. faults w2 = [] \<longrightarrow>
            calls (snd (purge_loop self (map sys_name (systems w)) w2)) =
              calls w2 @ map (\<lambda>n. RemoveSystem n (token self)) (map sys_name (systems w)))"
proof -
  let ?w1 = "w\<lparr>calls := calls w @ [GetSystems]\<rparr>"
  have "faults ?w1 = []" using assms by simp
  from purge_loop_calls [OF this] have
    "calls (snd (purge_systems self w)) =
       calls w @ GetSystems # map (\<lambda>n. RemoveSystem n (token self)) (map sys_name (systems w))"
    by (simp add: purge_systems_def bind_io_def system_names_ok [OF assms])
  then show ?thesis by (simp add: purge_loop_calls)
qed

text \<open>
  Two systems, three calls; and the loop over the two fetched names in a catalog that
  has gained \<open>h3\<close> after the fetch makes no call for \<open>h3\<close>.
\<close>

theorem purge_systems_calls_witness:
  "faults demo_catalog = []
 \<and> calls (snd (purge_systems demo_client demo_catalog)) =
      [GetSystems, RemoveSystem ''h1'' ''tok'', RemoveSystem ''h2'' ''tok'']
 \<and> calls (snd (purge_loop demo_client [''h1'', ''h2'']
      (demo_catalog\<lparr>systems := systems demo_catalog @
                        [\<lparr>sys_name = ''h3'', sys_attrs = [(''name'', JStr ''h3'')]\<rparr>],
                     calls := [GetSystems]\<rparr>))) =
      [GetSystems, RemoveSystem ''h1'' ''tok'', RemoveSystem ''h2'' ''tok'']"
  using purge_systems_calls [of demo_catalog demo_client]
  by simp

section \<open>Boot arguments\<close>

lemma arg_str_loop_eq: "arg_str_loop acc args = acc @ boot_args_spec args"
  by (induction acc args rule: arg_str_loop.induct) (simp_all add: boot_args_spec_def)

text \<open>
  Claim C5. For every list of pairs, the string that \<open>set_system_args\<close> builds is the
  concatenation, in the order given, of one \<open>" name=value"\<close> segment per pair: on a
  host the catalog holds, with calls that go through, the method opens a handle, stages
  exactly that string as \<open>kernel_options\<close> and saves.
\<close>

theorem set_system_args_kernel_options:
  assumes "faults w = []" and "find (\<lambda>s. sys_name s = hostname) (systems w) = Some s"
  shows "calls (snd (set_system_args self hostname args w)) =
           calls w @
           [GetSystemHandle hostname (token self),
            ModifySystem (next_handle w) ''kernel_options'' (JStr (boot_args_spec args)) (token self),
            SaveSystem (next_handle w) (token self)]"
proof -
  let ?w0 = "w\<lparr>stdout := stdout w @ [''about to get sys_id'']\<rparr>"
  have f0: "faults ?w0 = []" and s0: "find (\<lambda>s. sys_name s = hostname) (systems ?w0) = Some s"
    using assms by simp_all
  show ?thesis
    using arg_str_loop_eq [of "[]" args] assms(1)
    by (simp add: set_system_args_def Let_def get_system_handle_def bind_io_def print_def
        get_system_handle_ok [OF f0 s0] cobbler_modify_system_def cobbler_save_system_def
        remote_call_ok split: option.splits json.splits)
qed

text \<open>The specification's example: the string written is \<open>" ip=dhcp console=ttyS0"\<close>.\<close>

theorem set_system_args_kernel_options_witness:
  "faults demo_catalog = []
 \<and> find (\<lambda>s. sys_name s = ''h1'') (systems demo_catalog) =
      Some \<lparr>sys_name = ''h1'', sys_attrs = [(''name'', JStr ''h1'')]\<rparr>
 \<and> calls (snd (set_system_args demo_client ''h1'' [(''ip'', ''dhcp''), (''console'', ''ttyS0'')]
      demo_catalog)) =
     [GetSystemHandle ''h1'' ''tok'',
      ModifySystem 0 ''kernel_options'' (JStr '' ip=dhcp console=ttyS0'') ''tok'',
      SaveSystem 0 ''tok'']"
  using set_system_args_kernel_options
    [of demo_catalog "''h1''" "\<lparr>sys_name = ''h1'', sys_attrs = [(''name'', JStr ''h1'')]\<rparr>"
      demo_client "[(''ip'', ''dhcp''), (''console'', ''ttyS0'')]"]
  by (simp add: boot_args_spec_def)

section \<open>Creating a system\<close>

lemma has_required_obj:
  "has_required (JObj kvs) =
     Inr (map_of kvs ''arch'' \<noteq> None \<and> map_of kvs ''host_ports'' \<noteq> None)"
  by (simp add: has_required_def split: bool.splits)

text \<open>
  The \<^verbatim>\<open>try\<close> block on a dictionary without \<open>arch\<close> or without \<open>host_ports\<close>: the
  \<^verbatim>\<open>new_system\<close> call, then the warning, which needs \<open>server_name\<close> to be a string.
\<close>

lemma add_system_try_rejected:
  assumes "map_of kvs ''arch'' = None \<or> map_of kvs ''host_ports'' = None"
  shows "add_system_try self (Document (JObj kvs)) w =
     (case cobbler_new_system (token self) w of
        (Inl e, w1) \<Rightarrow> (Inl e, w1)
      | (Inr h, w1) \<Rightarrow>
          (case map_of kvs ''server_name'' of
             None \<Rightarrow> (Inl (KeyError ''server_name''), w1)
           | Some (JStr s) \<Rightarrow>
               (Inr None, w1\<lparr>stdout := stdout w1 @
                  [''WARNING: Host schema for '' @ s @ '' is out of date! Reimport this host.'']\<rparr>)
           | Some other \<Rightarrow> (Inl TypeError, w1)))"
  using assms
  by (auto simp add: add_system_try_def bind_io_def pure_io_def return_io_def json_loads_def
      has_required_obj warning_text_def print_def
      split: prod.splits sum.splits option.splits json.splits)

lemma bind_io_InrE:
  assumes "fst (bind_io m f w) = Inr r"
  obtains x w1 where "m w = (Inr x, w1)" and "fst (f x w1) = Inr r"
  using assms by (cases "m w") (auto simp add: bind_io_def split: sum.splits)

text \<open>Both \<^verbatim>\<open>return\<close> statements of the \<^verbatim>\<open>try\<close> block return \<^verbatim>\<open>None\<close>.\<close>

lemma add_system_try_returns_None:
  "fst (add_system_try self raw w) = Inr r \<Longrightarrow> r = None"
  unfolding add_system_try_def
  by (elim bind_io_InrE) (auto simp add: return_io_def elim!: bind_io_InrE split: if_splits)

text \<open>
  Claim C1, as the specification states it, fails: the schema check comes after the
  \<^verbatim>\<open>new_system\<close> call. On an empty call log, the legacy definition (no \<open>host_ports\<close>)
  leaves the log with that one call.
\<close>

theorem add_system_rejection_no_rpc_counterexample:
  "map_of legacy_fields ''host_ports'' = None
 \<and> calls demo_world = []
 \<and> calls (snd (add_system demo_client (Document (JObj legacy_fields)) demo_world)) =
     [NewSystem ''tok'']"
  by (simp add: io_defs client_defs)

text \<open>
  Claim C1, amended. For every system definition (a dictionary) without \<open>arch\<close> or
  without \<open>host_ports\<close>, \<open>add_system\<close> makes exactly one remote call, \<^verbatim>\<open>new_system\<close>,
  before the schema check, and none after it (no \<^verbatim>\<open>modify_system\<close>, no \<^verbatim>\<open>save_system\<close>);
  the system catalog is unchanged; and when that call goes through and \<open>server_name\<close> is
  a string, the method prints the warning that names the host and returns \<^verbatim>\<open>None\<close>.
\<close>

theorem add_system_rejection_calls_new_system:
  assumes "map_of kvs ''arch'' = None \<or> map_of kvs ''host_ports'' = None"
  shows "calls (snd (add_system self (Document (JObj kvs)) w)) = calls w @ [NewSystem (token self)]
       \<and> systems (snd (add_system self (Document (JObj kvs)) w)) = systems w
       \<and> (\<forall>s. faults w = [] \<and> map_of kvs ''server_name'' = Some (JStr s) \<longrightarrow>
            fst (add_system self (Document (JObj kvs)) w) = Inr None
          \<and> stdout (snd (add_system self (Document (JObj kvs)) w)) =
              stdout w @ [''WARNING: Host schema for '' @ s @ '' is out of date! Reimport this host.''])"
proof -
  obtain r w1 where nw: "cobbler_new_system (token self) w = (r, w1)"
    by (cases "cobbler_new_system (token self) w")
  have w1: "calls w1 = calls w @ [NewSystem (token self)]" "systems w1 = systems w"
    using new_system_frame [of "token self" w] nw by simp_all
  have a: "calls (snd (add_system self (Document (JObj kvs)) w)) = calls w @ [NewSystem (token self)]"
    using w1 by (simp add: add_system_def add_system_try_rejected [OF assms] nw
        split: sum.splits option.splits json.splits)
  have b: "systems (snd (add_system self (Document (JObj kvs)) w)) = systems w"
    using w1 by (simp add: add_system_def add_system_try_rejected [OF assms] nw
        split: sum.splits option.splits json.splits)
  have c: "fst (add_system self (Document (JObj kvs)) w) = Inr None
          \<and> stdout (snd (add_system self (Document (JObj kvs)) w)) =
              stdout w @ [''WARNING: Host schema for '' @ s @ '' is out of date! Reimport this host.'']"
    if "faults w = []" "map_of kvs ''server_name'' = Some (JStr s)" for s
    using that by (simp add: add_system_def add_system_try_rejected [OF assms] new_system_ok)
  from a b c show ?thesis by blast
qed

text \<open>The legacy definition against the catalog of two systems.\<close>

theorem add_system_rejection_calls_new_system_witness:
  "map_of legacy_fields ''host_ports'' = None
 \<and> calls (snd (add_system demo_client (Document (JObj legacy_fields)) demo_catalog)) =
     [NewSystem ''tok'']
 \<and> systems (snd (add_system demo_client (Document (JObj legacy_fields)) demo_catalog)) =
     systems demo_catalog
 \<and> fst (add_system demo_client (Document (JObj legacy_fields)) demo_catalog) = Inr None
 \<and> stdout (snd (add_system demo_client (Document (JObj legacy_fields)) demo_catalog)) =
     [''WARNING: Host schema for h1 is out of date! Reimport this host.'']"
  using add_system_rejection_calls_new_system [of legacy_fields demo_client demo_catalog]
  by simp

text \<open>
  Claim C2, at its own input. The loop over \<^verbatim>\<open>host_ports.items()\<close> subscripts the pair
  \<^verbatim>\<open>('eth0', 'AA:BB:CC:DD:EE:FF')\<close> with a string and raises \<^verbatim>\<open>TypeError\<close>; \<open>add_system\<close>
  returns that exception. By then it has opened the handle and staged \<open>name\<close>,
  \<open>hostname\<close> and \<open>profile\<close>; it stages no \<open>interfaces\<close>, no power field and no
  \<open>netboot_enabled\<close>, makes no \<^verbatim>\<open>save_system\<close> call, and the catalog stays empty.
\<close>

theorem add_system_host_ports_raises:
  "fst (add_system demo_client
          (Document (demo_def (JObj [(''eth0'', JStr ''AA:BB:CC:DD:EE:FF'')]))) demo_world) =
     Inr (Some TypeError)
 \<and> systems (snd (add_system demo_client
          (Document (demo_def (JObj [(''eth0'', JStr ''AA:BB:CC:DD:EE:FF'')]))) demo_world)) = []
 \<and> calls (snd (add_system demo_client
          (Document (demo_def (JObj [(''eth0'', JStr ''AA:BB:CC:DD:EE:FF'')]))) demo_world)) =
     [NewSystem ''tok'',
      ModifySystem 0 ''name'' (JStr ''h1'') ''tok'',
      ModifySystem 0 ''hostname'' (JStr ''h1'') ''tok'',
      GetProfiles, GetDistros,
      ModifySystem 0 ''profile'' (JStr ''p1'') ''tok'']"
  by (simp add: io_defs client_defs)

text \<open>
  Claim C3. For every input and every state of the service, \<open>add_system\<close> returns a
  value: it never ends in an exception. Whatever exception the \<^verbatim>\<open>try\<close> block raises
  (from parsing, from a remote call, from a subscript) is the value returned.
\<close>

theorem add_system_never_raises:
  "\<exists>r. fst (add_system self raw w) = Inr r
      \<and> (\<forall>e. fst (add_system_try self raw w) = Inl e \<longrightarrow> r = Some e)"
  by (cases "add_system_try self raw w") (auto simp add: add_system_def split: sum.splits)

text \<open>A service whose second call (the first \<^verbatim>\<open>modify_system\<close>) fails.\<close>

theorem add_system_never_raises_witness:
  "fst (add_system_try demo_client (Document (demo_def (JObj [])))
         (demo_world\<lparr>faults := [None, Some (Fault ''connection refused'')]\<rparr>)) =
     Inl (Fault ''connection refused'')
 \<and> fst (add_system demo_client (Document (demo_def (JObj [])))
         (demo_world\<lparr>faults := [None, Some (Fault ''connection refused'')]\<rparr>)) =
     Inr (Some (Fault ''connection refused''))"
proof -
  have t: "fst (add_system_try demo_client (Document (demo_def (JObj [])))
         (demo_world\<lparr>faults := [None, Some (Fault ''connection refused'')]\<rparr>)) =
     Inl (Fault ''connection refused'')"
    by (simp add: io_defs client_defs)
  from add_system_never_raises [of demo_client "Document (demo_def (JObj []))"
      "demo_world\<lparr>faults := [None, Some (Fault ''connection refused'')]\<rparr>"] t
  show ?thesis by auto
qed

text \<open>
  Claim C10. Whenever the \<^verbatim>\<open>try\<close> block returns, through the \<^verbatim>\<open>return\<close> after the
  warning or through the one after \<^verbatim>\<open>save_system\<close>, \<open>add_system\<close> returns \<^verbatim>\<open>None\<close>; a
  rejected definition (no \<open>arch\<close> or no \<open>host_ports\<close>, a string \<open>server_name\<close>, the
  \<^verbatim>\<open>new_system\<close> call going through) is such a run; and \<open>add_system\<close> returns an
  exception \<open>e\<close> exactly when the block raised \<open>e\<close>.
\<close>

theorem add_system_returns_None_on_both_paths:
  "(fst (add_system_try self raw w) = Inr r \<longrightarrow> fst (add_system self raw w) = Inr None)
 \<and> (fst (add_system self raw w) = Inr (Some e) \<longleftrightarrow> fst (add_system_try self raw w) = Inl e)
 \<and> ((map_of kvs ''arch'' = None \<or> map_of kvs ''host_ports'' = None)
      \<and> map_of kvs ''server_name'' = Some (JStr s) \<and> faults w = [] \<longrightarrow>
      fst (add_system self (Document (JObj kvs)) w) = Inr None)"
proof (intro conjI impI)
  assume a: "fst (add_system_try self raw w) = Inr r"
  then have "r = None" by (rule add_system_try_returns_None)
  with a show "fst (add_system self raw w) = Inr None"
    by (cases "add_system_try self raw w") (simp add: add_system_def)
next
  show "(fst (add_system self raw w) = Inr (Some e)) = (fst (add_system_try self raw w) = Inl e)"
  proof (cases "add_system_try self raw w")
    case (Pair res w1)
    show ?thesis
    proof (cases res)
      case (Inl e')
      with Pair show ?thesis by (simp add: add_system_def)
    next
      case (Inr r')
      with Pair have "r' = None"
        using add_system_try_returns_None [of self raw w r'] by simp
      with Pair Inr show ?thesis by (simp add: add_system_def)
    qed
  qed
next
  assume "(map_of kvs ''arch'' = None \<or> map_of kvs ''host_ports'' = None)
      \<and> map_of kvs ''server_name'' = Some (JStr s) \<and> faults w = []"
  then show "fst (add_system self (Document (JObj kvs)) w) = Inr None"
    by (simp add: add_system_def add_system_try_rejected new_system_ok)
qed

text \<open>
  A committed run (empty \<open>host_ports\<close>: the last call is the save and the catalog holds
  \<open>h1\<close>) and a rejected one both return \<^verbatim>\<open>None\<close>; a definition whose \<open>host_ports\<close> is
  a list returns the \<^verbatim>\<open>AttributeError\<close> of \<^verbatim>\<open>.items()\<close>.
\<close>

theorem add_system_returns_None_on_both_paths_witness:
  "fst (add_system_try demo_client (Document (demo_def (JObj []))) demo_world) = Inr None
 \<and> last (calls (snd (add_system demo_client (Document (demo_def (JObj []))) demo_world))) =
     SaveSystem 0 ''tok''
 \<and> map sys_name (systems (snd (add_system demo_client (Document (demo_def (JObj []))) demo_world))) =
     [''h1'']
 \<and> fst (add_system demo_client (Document (demo_def (JObj []))) demo_world) = Inr None
 \<and> map_of legacy_fields ''host_ports'' = None
 \<and> fst (add_system demo_client (Document (JObj legacy_fields)) demo_world) = Inr None
 \<and> fst (add_system_try demo_client (Document (demo_def (JArr []))) demo_world) =
     Inl AttributeError
 \<and> fst (add_system demo_client (Document (demo_def (JArr []))) demo_world) =
     Inr (Some AttributeError)"
proof -
  have t: "fst (add_system_try demo_client (Document (demo_def (JObj []))) demo_world) = Inr None"
    by (simp add: io_defs client_defs)
  have l: "last (calls (snd (add_system demo_client (Document (demo_def (JObj []))) demo_world))) =
     SaveSystem 0 ''tok''"
    by (simp add: io_defs client_defs)
  have n: "map sys_name (systems (snd (add_system demo_client (Document (demo_def (JObj []))) demo_world))) =
     [''h1'']"
    by (simp add: io_defs client_defs)
  have u: "fst (add_system_try demo_client (Document (demo_def (JArr []))) demo_world) =
     Inl AttributeError"
    by (simp add: io_defs client_defs)
  have m: "map_of legacy_fields ''host_ports'' = None"
    "map_of legacy_fields ''server_name'' = Some (JStr ''h1'')"
    "faults demo_world = []"
    by simp_all
  from add_system_returns_None_on_both_paths
    [of demo_client "Document (demo_def (JObj []))" demo_world None AttributeError
      legacy_fields "''h1''"] t
  have a: "fst (add_system demo_client (Document (demo_def (JObj []))) demo_world) = Inr None"
    and c: "fst (add_system demo_client (Document (JObj legacy_fields)) demo_world) = Inr None"
    using m by blast+
  from add_system_returns_None_on_both_paths
    [of demo_client "Document (demo_def (JArr []))" demo_world None AttributeError "[]" "[]"] u
  have b: "fst (add_system demo_client (Document (demo_def (JArr []))) demo_world) =
     Inr (Some AttributeError)"
    by blast
  from t l n a m(1) c u b show ?thesis by blast
qed

end
